theory Spec2Isabelle
  imports Complex_Main
begin

section \<open>Numbers and errors of the Python run time\<close>

text \<open>
  The analysis code computes on numpy and pandas floating-point numbers. A float is modelled
  as a real number, with the three special values of IEEE arithmetic written out, so that a
  division by zero and a mean of nothing are values of the model and not HOL's \<open>x / 0 = 0\<close>.
  Rounding and signed zeros are not modelled.
\<close>

datatype npfloat = Finite real | PosInf | NegInf | NaN

text \<open>
  The exceptions the modelled code can raise. \<open>QhullError\<close> and \<open>DataSourceError\<close> come out of
  the libraries (scipy's diagram constructor, the file reader). \<open>InsufficientDataError\<close> is the
  error type the specification names; no statement of the source raises it.
\<close>

datatype error = ValueError | KeyError | QhullError | DataSourceError | InsufficientDataError

text \<open>numpy's float division: \<open>x / 0\<close> is an infinity, \<open>0 / 0\<close> is not-a-number.\<close>

definition np_div :: "real \<Rightarrow> real \<Rightarrow> npfloat" where
  "np_div a b =
     (if b \<noteq> 0 then Finite (a / b)
      else if 0 < a then PosInf
      else if a < 0 then NegInf
      else NaN)"

fun np_mul :: "npfloat \<Rightarrow> real \<Rightarrow> npfloat" where
  "np_mul (Finite x) c = Finite (x * c)"
| "np_mul PosInf c = (if 0 < c then PosInf else if c < 0 then NegInf else NaN)"
| "np_mul NegInf c = (if 0 < c then NegInf else if c < 0 then PosInf else NaN)"
| "np_mul NaN c = NaN"

text \<open>\<open>np.mean\<close> and \<open>np.std\<close> (population standard deviation, \<open>ddof = 0\<close>): on an empty
  list both return not-a-number (with a warning), they do not raise.\<close>

fun np_mean :: "real list \<Rightarrow> npfloat" where
  "np_mean [] = NaN"
| "np_mean (x # xs) = Finite (sum_list (x # xs) / real (length (x # xs)))"

fun np_std :: "real list \<Rightarrow> npfloat" where
  "np_std [] = NaN"
| "np_std (x # xs) =
     (let m = sum_list (x # xs) / real (length (x # xs))
      in Finite (sqrt (sum_list (map (\<lambda>v. \<bar>v - m\<bar>\<^sup>2) (x # xs)) / real (length (x # xs)))))"

text \<open>\<open>np.min\<close> and \<open>np.max\<close> raise \<open>ValueError\<close> on an empty list.\<close>

fun np_min :: "real list \<Rightarrow> error + real" where
  "np_min [] = Inl ValueError"
| "np_min (x # xs) = Inr (fold min xs x)"

fun np_max :: "real list \<Rightarrow> error + real" where
  "np_max [] = Inl ValueError"
| "np_max (x # xs) = Inr (fold max xs x)"

section \<open>utils/school\_distribution\_analysis.py\<close>

type_synonym point = "real \<times> real"

subsection \<open>calculate\_nearest\_neighbor\_distance\<close>

text \<open>
  What the code reads of scipy's \<open>Voronoi\<close> object. \<open>ridge_points\<close> has one row per ridge: the
  indices of the two input points the ridge lies between. \<open>ridge_vertices\<close> has, for the same
  ridge, the indices of the diagram's vertices that bound it, where \<open>-1\<close> stands for a vertex
  at infinity. The constructor itself is a library function and a parameter of the model.
\<close>

record voronoi =
  ridge_points :: "(int \<times> int) list"
  ridge_vertices :: "int list list"

record nn_stats =
  mean_nearest_neighbor_distance :: npfloat
  min_nearest_neighbor_distance :: real
  max_nearest_neighbor_distance :: real

text \<open>The difference of two rows of the coordinate array, and \<open>np.linalg.norm\<close> of a vector of
  two coordinates.\<close>

definition vsub :: "point \<Rightarrow> point \<Rightarrow> point" where
  "vsub p q = (fst p - fst q, snd p - snd q)"

definition norm2 :: "point \<Rightarrow> real" where
  "norm2 v = sqrt ((fst v)\<^sup>2 + (snd v)\<^sup>2)"

definition ridge_ok :: "nat \<Rightarrow> int \<times> int \<Rightarrow> bool" where
  "ridge_ok n ridge = ((0 \<le> fst ridge \<and> fst ridge < int n) \<and> (0 \<le> snd ridge \<and> snd ridge < int n))"

text \<open>The list comprehension \<open>ridge_lengths\<close>: the filter reads \<open>ridge_points\<close> only. Every
  index that passes the filter is in range, so the reads of \<open>coords\<close> are.\<close>

definition ridge_lengths :: "point list \<Rightarrow> voronoi \<Rightarrow> real list" where
  "ridge_lengths coords vor =
     map (\<lambda>ridge. norm2 (vsub (coords ! nat (fst ridge)) (coords ! nat (snd ridge))))
       (filter (ridge_ok (length coords)) (ridge_points vor))"

text \<open>The returned dictionary: its entries are evaluated in order, so on an empty list the mean
  is computed (not-a-number) and then \<open>np.min\<close> raises.\<close>

definition nearest_neighbor_summary :: "real list \<Rightarrow> error + nn_stats" where
  "nearest_neighbor_summary ls =
     (let m = np_mean ls in
      case np_min ls of
        Inl e \<Rightarrow> Inl e
      | Inr lo \<Rightarrow>
          (case np_max ls of
             Inl e \<Rightarrow> Inl e
           | Inr hi \<Rightarrow>
               Inr \<lparr>mean_nearest_neighbor_distance = m,
                    min_nearest_neighbor_distance = lo,
                    max_nearest_neighbor_distance = hi\<rparr>))"

definition calculate_nearest_neighbor_distance ::
  "(point list \<Rightarrow> error + voronoi) \<Rightarrow> point list \<Rightarrow> error + nn_stats" where
  "calculate_nearest_neighbor_distance Voronoi coords =
     (case Voronoi coords of
        Inl e \<Rightarrow> Inl e
      | Inr vor \<Rightarrow> nearest_neighbor_summary (ridge_lengths coords vor))"

text \<open>A ridge is bounded when none of its diagram vertices is the vertex at infinity. The code
  never evaluates this; it is here to say which ridges the filter lets through.\<close>

definition ridge_bounded :: "int list \<Rightarrow> bool" where
  "ridge_bounded vs = (filter (\<lambda>v. v < 0) vs = [])"

subsection \<open>calculate\_coverage\<close>

text \<open>\<open>total_bounds\<close> of a series of points: \<open>(minx, miny, maxx, maxy)\<close>; of an empty series, four
  not-a-numbers (\<open>None\<close> here).\<close>

fun total_bounds :: "point list \<Rightarrow> (real \<times> real \<times> real \<times> real) option" where
  "total_bounds [] = None"
| "total_bounds (p # ps) =
     Some (fold min (map fst ps) (fst p), fold min (map snd ps) (snd p),
           fold max (map fst ps) (fst p), fold max (map snd ps) (snd p))"

text \<open>\<open>.prod()\<close> of the array of the four bounds.\<close>

fun bounds_prod :: "real \<times> real \<times> real \<times> real \<Rightarrow> real" where
  "bounds_prod (minx, miny, maxx, maxy) = minx * miny * maxx * maxy"

record coverage =
  total_coverage_area :: real
  coverage_percentage :: npfloat

text \<open>The area of the union of the buffers is computed by shapely: \<open>buffer_union_area\<close> is that
  library computation, a parameter. The source's default \<open>buffer_distance\<close> is 10.\<close>

definition default_buffer_distance :: real where
  "default_buffer_distance = 10"

definition calculate_coverage ::
  "(point list \<Rightarrow> real \<Rightarrow> real) \<Rightarrow> point list \<Rightarrow> real \<Rightarrow> coverage" where
  "calculate_coverage buffer_union_area schools_geometry buffer_distance =
     (let area = buffer_union_area schools_geometry buffer_distance in
      \<lparr>total_coverage_area = area,
       coverage_percentage =
         (case total_bounds schools_geometry of
            None \<Rightarrow> NaN
          | Some b \<Rightarrow> np_mul (np_div area (bounds_prod b)) 100)\<rparr>)"

subsection \<open>calculate\_spatial\_dispersion\<close>

text \<open>The centroid of a point geometry is the point.\<close>

definition centroid :: "point \<Rightarrow> point" where
  "centroid p = p"

text \<open>shapely's distance between two points.\<close>

definition distance :: "point \<Rightarrow> point \<Rightarrow> real" where
  "distance p q = sqrt ((fst p - fst q)\<^sup>2 + (snd p - snd q)\<^sup>2)"

text \<open>The mean coordinate of the centroids; pandas' mean of an empty column is not-a-number
  (\<open>None\<close> here), and then there is no centroid to measure from it.\<close>

fun centroid_of_centroids :: "point list \<Rightarrow> point option" where
  "centroid_of_centroids [] = None"
| "centroid_of_centroids (c # cs) =
     Some (sum_list (map fst (c # cs)) / real (length (c # cs)),
           sum_list (map snd (c # cs)) / real (length (c # cs)))"

definition distances_from_center :: "point list \<Rightarrow> real list" where
  "distances_from_center centroids =
     (case centroid_of_centroids centroids of
        None \<Rightarrow> []
      | Some center \<Rightarrow> map (\<lambda>c. distance c center) centroids)"

record dispersion =
  mean_distance_from_center :: npfloat
  std_distance_from_center :: npfloat

definition calculate_spatial_dispersion :: "point list \<Rightarrow> dispersion" where
  "calculate_spatial_dispersion geometry_series =
     (let ds = distances_from_center (map centroid geometry_series) in
      \<lparr>mean_distance_from_center = np_mean ds,
       std_distance_from_center = np_std ds\<rparr>)"

section \<open>edu\_access\_mapper.py\<close>

subsection \<open>Feature collections\<close>

text \<open>
  A value of an attribute column as the file reader delivers it: a number, a text, or a missing
  value (pandas' not-a-number).
\<close>

datatype cell = NumCell real | StrCell string | NullCell

text \<open>
  A facility has a geometry; its other attributes are not read by the analysis. A district has
  a geometry and the two columns the analysis reads by name, \<open>DIST_NAME\<close> and \<open>TOTAL_POP\<close>. The
  three columns the analysis adds are optional fields: \<open>None\<close> while the data frame has no such
  column. Counts and differences of counts are whole numbers (pandas keeps some of them as
  floats).
\<close>

record 'g feature =
  geometry :: 'g

record 'g district = "'g feature" +
  DIST_NAME :: string
  TOTAL_POP :: cell
  required_schools_col :: "int option"
  current_schools_col :: "int option"
  additional_schools_needed_col :: "int option"

text \<open>A GeoDataFrame: a coordinate reference system and the rows, in order.\<close>

record ('c, 'r) gdf =
  crs :: 'c
  rows :: "'r list"

text \<open>
  What a vector layer's data source holds. The model has two kinds of layers: a district layer
  has the columns \<open>DIST_NAME\<close> and \<open>TOTAL_POP\<close>, a facility layer has no column of these names.
\<close>

datatype ('c, 'g) layer_data =
  Facilities "('c, 'g feature) gdf"
| Districts "('c, 'g district) gdf"

text \<open>
  The state the analysis runs in: the data sources of the layers (what is on disk, keyed by
  \<open>qgis_layer.source()\<close>) and the data frame objects in memory, by address. \<open>next_addr\<close> is the
  address the next new object gets.
\<close>

record ('s, 'c, 'g) world =
  sources :: "'s \<Rightarrow> ('c, 'g) layer_data option"
  heap :: "nat \<Rightarrow> ('c, 'g) layer_data option"
  next_addr :: nat

text \<open>
  The library functions the analysis calls, as parameters: shapely's \<open>within\<close> predicate (\<open>is_within\<close>),
  the reprojection of one geometry from a reference system to another, and Python's parsing of
  a text as a float (\<open>None\<close> when the text is no number).
\<close>

record ('c, 'g) geo =
  is_within :: "'g \<Rightarrow> 'g \<Rightarrow> bool"
  reproject :: "'c \<Rightarrow> 'c \<Rightarrow> 'g \<Rightarrow> 'g"
  py_float :: "string \<Rightarrow> real option"

text \<open>The dictionary \<open>analyze_school_distribution\<close> returns.\<close>

record analysis =
  total_schools :: nat
  schools_per_city :: "string \<Rightarrow> nat option"
  required_schools :: "string \<Rightarrow> int option"
  additional_schools_needed :: "string \<Rightarrow> int option"

subsection \<open>Memory\<close>

text \<open>A new object gets the next address.\<close>

definition alloc :: "('c, 'g) layer_data \<Rightarrow> ('s, 'c, 'g) world \<Rightarrow> nat \<times> ('s, 'c, 'g) world" where
  "alloc ob w = (next_addr w, w\<lparr>heap := (heap w)(next_addr w \<mapsto> ob), next_addr := Suc (next_addr w)\<rparr>)"

text \<open>An assignment to a column of the data frame at an address: the object there is replaced by
  its updated content.\<close>

definition store :: "nat \<Rightarrow> ('c, 'g) layer_data \<Rightarrow> ('s, 'c, 'g) world \<Rightarrow> ('s, 'c, 'g) world" where
  "store a ob w = w\<lparr>heap := (heap w)(a \<mapsto> ob)\<rparr>"

text \<open>\<open>layer_to_geopandas\<close>: \<open>gpd.read_file\<close> builds a new data frame from the layer's data source,
  or raises when the source cannot be read. The local variable is the pair of the reference and
  the content read.\<close>

definition layer_to_geopandas ::
  "('s, 'c, 'g) world \<Rightarrow> 's \<Rightarrow> (error + nat \<times> ('c, 'g) layer_data) \<times> ('s, 'c, 'g) world" where
  "layer_to_geopandas w qgis_layer =
     (case sources w qgis_layer of
        None \<Rightarrow> (Inl DataSourceError, w)
      | Some ob \<Rightarrow> (case alloc ob w of (a, w') \<Rightarrow> (Inr (a, ob), w')))"

subsection \<open>Reference systems\<close>

fun layer_crs :: "('c, 'g) layer_data \<Rightarrow> 'c" where
  "layer_crs (Facilities f) = crs f"
| "layer_crs (Districts d) = crs d"

text \<open>\<open>to_crs\<close> returns a new data frame with every geometry reprojected; the attribute columns
  are carried over.\<close>

definition to_crs :: "('c, 'g) geo \<Rightarrow> 'c \<Rightarrow> ('c, ('g, 'z) feature_scheme) gdf \<Rightarrow> ('c, ('g, 'z) feature_scheme) gdf" where
  "to_crs G target fr =
     \<lparr>crs = target,
      rows = map (\<lambda>r. r\<lparr>geometry := reproject G (crs fr) target (geometry r)\<rparr>) (rows fr)\<rparr>"

fun layer_to_crs :: "('c, 'g) geo \<Rightarrow> 'c \<Rightarrow> ('c, 'g) layer_data \<Rightarrow> ('c, 'g) layer_data" where
  "layer_to_crs G target (Facilities f) = Facilities (to_crs G target f)"
| "layer_to_crs G target (Districts d) = Districts (to_crs G target d)"

subsection \<open>The spatial join and the grouping\<close>

text \<open>
  \<open>gpd.sjoin(schools, cities, how='left', predicate='within')\<close>: one row for every pair of a
  school and a district the school is within, and one row with no district for a school that
  is within none. A school within several districts has several rows.
\<close>

definition sjoin_left_within ::
  "('c, 'g) geo \<Rightarrow> 'g feature list \<Rightarrow> 'g district list \<Rightarrow> ('g feature \<times> 'g district option) list" where
  "sjoin_left_within G schools cities =
     concat (map (\<lambda>s.
        case filter (\<lambda>d. is_within G (geometry s) (geometry d)) cities of
          [] \<Rightarrow> [(s, None)]
        | m # ms \<Rightarrow> map (\<lambda>d. (s, Some d)) (m # ms)) schools)"

text \<open>The \<open>DIST_NAME\<close> column of the joined rows: missing where the school has no district.\<close>

definition joined_names :: "('g feature \<times> 'g district option) list \<Rightarrow> string option list" where
  "joined_names joined = map (\<lambda>row. map_option DIST_NAME (snd row)) joined"

text \<open>\<open>groupby(...).size()\<close>: the number of rows for every key that occurs; rows with a missing
  key are dropped. The series is modelled by its lookup; the order of its index is not.\<close>

definition groupby_size :: "string option list \<Rightarrow> string \<Rightarrow> nat option" where
  "groupby_size keys k =
     (if count_list keys (Some k) = 0 then None else Some (count_list keys (Some k)))"

subsection \<open>The columns of the capacity calculation\<close>

definition max_students_per_school :: real where
  "max_students_per_school = 2000"

text \<open>A column operation that raises on the first value it cannot convert.\<close>

fun traverse :: "('a \<Rightarrow> error + 'b) \<Rightarrow> 'a list \<Rightarrow> error + 'b list" where
  "traverse f [] = Inr []"
| "traverse f (x # xs) =
     (case f x of
        Inl e \<Rightarrow> Inl e
      | Inr y \<Rightarrow> (case traverse f xs of Inl e \<Rightarrow> Inl e | Inr ys \<Rightarrow> Inr (y # ys)))"

text \<open>\<open>astype(float)\<close> on one value: a text is parsed, and raises \<open>ValueError\<close> when it is no
  number; a missing value stays missing.\<close>

fun astype_float :: "(string \<Rightarrow> real option) \<Rightarrow> cell \<Rightarrow> error + cell" where
  "astype_float parse (NumCell x) = Inr (NumCell x)"
| "astype_float parse (StrCell t) =
     (case parse t of None \<Rightarrow> Inl ValueError | Some x \<Rightarrow> Inr (NumCell x))"
| "astype_float parse NullCell = Inr NullCell"

text \<open>\<open>(pop / max_students_per_school)\<close>, then \<open>np.ceil\<close>, then \<open>astype(int)\<close>, on one value of the
  float column: a missing value cannot be cast to an integer.\<close>

fun required_of :: "cell \<Rightarrow> error + int" where
  "required_of (NumCell x) = Inr \<lceil>x / max_students_per_school\<rceil>"
| "required_of (StrCell t) = Inl ValueError"
| "required_of NullCell = Inl ValueError"

text \<open>\<open>cities_gdf['DIST_NAME'].map(schools_per_city).fillna(0)\<close> on one name.\<close>

definition current_of :: "(string \<Rightarrow> nat option) \<Rightarrow> string \<Rightarrow> int" where
  "current_of per_city name = (case per_city name of None \<Rightarrow> 0 | Some k \<Rightarrow> int k)"

text \<open>The four column assignments, on the rows of the data frame.\<close>

definition set_TOTAL_POP :: "cell list \<Rightarrow> 'g district list \<Rightarrow> 'g district list" where
  "set_TOTAL_POP vs ds = map (\<lambda>(d, v). d\<lparr>TOTAL_POP := v\<rparr>) (zip ds vs)"

definition set_required_schools :: "int list \<Rightarrow> 'g district list \<Rightarrow> 'g district list" where
  "set_required_schools vs ds = map (\<lambda>(d, v). d\<lparr>required_schools_col := Some v\<rparr>) (zip ds vs)"

definition set_current_schools :: "int list \<Rightarrow> 'g district list \<Rightarrow> 'g district list" where
  "set_current_schools vs ds = map (\<lambda>(d, v). d\<lparr>current_schools_col := Some v\<rparr>) (zip ds vs)"

definition set_additional_schools_needed :: "int list \<Rightarrow> 'g district list \<Rightarrow> 'g district list" where
  "set_additional_schools_needed vs ds =
     map (\<lambda>(d, v). d\<lparr>additional_schools_needed_col := Some v\<rparr>) (zip ds vs)"

text \<open>\<open>set_index('DIST_NAME').to_dict()[column]\<close>: the dictionary is filled row by row, so of two
  rows with one name the later one stays.\<close>

definition to_dict :: "(string \<times> 'v) list \<Rightarrow> string \<Rightarrow> 'v option" where
  "to_dict kvs = fold (\<lambda>(k, v) m. m(k \<mapsto> v)) kvs Map.empty"

subsection \<open>analyze\_school\_distribution\<close>

text \<open>
  Lines 86 to 101: the columns are computed from the rows and from the counts of the join, each
  assignment writes the data frame at \<open>cities_ref\<close>, and the result is read from the columns.
\<close>

definition capacity_and_result ::
  "('c, 'g) geo \<Rightarrow> ('c, 'g feature) gdf \<Rightarrow> nat \<Rightarrow> ('c, 'g district) gdf \<Rightarrow> (string \<Rightarrow> nat option) \<Rightarrow>
   ('s, 'c, 'g) world \<Rightarrow> (error + analysis) \<times> ('s, 'c, 'g) world" where
  "capacity_and_result G schools_gdf cities_ref cities_gdf per_city w =
     (case traverse (astype_float (py_float G)) (map TOTAL_POP (rows cities_gdf)) of
        Inl e \<Rightarrow> (Inl e, w)
      | Inr pops \<Rightarrow>
          let c1 = cities_gdf\<lparr>rows := set_TOTAL_POP pops (rows cities_gdf)\<rparr>;
              w1 = store cities_ref (Districts c1) w
          in (case traverse required_of (map TOTAL_POP (rows c1)) of
                Inl e \<Rightarrow> (Inl e, w1)
              | Inr required \<Rightarrow>
                  let c2 = c1\<lparr>rows := set_required_schools required (rows c1)\<rparr>;
                      w2 = store cities_ref (Districts c2) w1;
                      current = map (\<lambda>d. current_of per_city (DIST_NAME d)) (rows c2);
                      c3 = c2\<lparr>rows := set_current_schools current (rows c2)\<rparr>;
                      w3 = store cities_ref (Districts c3) w2;
                      difference = map (\<lambda>(r, c). r - c) (zip required current);
                      c4 = c3\<lparr>rows := set_additional_schools_needed difference (rows c3)\<rparr>;
                      w4 = store cities_ref (Districts c4) w3;
                      additional = map (\<lambda>x. max x 0) difference;
                      c5 = c4\<lparr>rows := set_additional_schools_needed additional (rows c4)\<rparr>;
                      w5 = store cities_ref (Districts c5) w4
                  in (Inr \<lparr>total_schools = length (rows schools_gdf),
                            schools_per_city = per_city,
                            required_schools = to_dict (zip (map DIST_NAME (rows c5)) required),
                            additional_schools_needed = to_dict (zip (map DIST_NAME (rows c5)) additional)\<rparr>,
                      w5)))"

text \<open>
  Lines 75 to 84. The two layers are read; when their reference systems differ the districts
  are reprojected into a new data frame; the join and the grouping need a facility layer (no
  column \<open>DIST_NAME\<close>, or the join would rename it) and a district layer (with the column),
  and \<open>groupby('DIST_NAME')\<close> raises \<open>KeyError\<close> otherwise.
\<close>

definition analyze_school_distribution ::
  "('c, 'g) geo \<Rightarrow> ('s, 'c, 'g) world \<Rightarrow> 's \<Rightarrow> 's \<Rightarrow> (error + analysis) \<times> ('s, 'c, 'g) world" where
  "analyze_school_distribution G w school_layer cities_layer =
     (case layer_to_geopandas w school_layer of
        (Inl e, w1) \<Rightarrow> (Inl e, w1)
      | (Inr (schools_ref, schools_ob), w1) \<Rightarrow>
     (case layer_to_geopandas w1 cities_layer of
        (Inl e, w2) \<Rightarrow> (Inl e, w2)
      | (Inr (cities_ref0, cities_ob0), w2) \<Rightarrow>
     (case (if layer_crs schools_ob \<noteq> layer_crs cities_ob0
            then (case alloc (layer_to_crs G (layer_crs schools_ob) cities_ob0) w2 of
                    (a, w') \<Rightarrow> ((a, layer_to_crs G (layer_crs schools_ob) cities_ob0), w'))
            else ((cities_ref0, cities_ob0), w2)) of
        ((cities_ref, cities_ob), w3) \<Rightarrow>
     (case (schools_ob, cities_ob) of
        (Facilities schools_gdf, Districts cities_gdf) \<Rightarrow>
          let schools_with_cities = sjoin_left_within G (rows schools_gdf) (rows cities_gdf);
              per_city = groupby_size (joined_names schools_with_cities)
          in capacity_and_result G schools_gdf cities_ref cities_gdf per_city w3
      | _ \<Rightarrow> (Inl KeyError, w3)))))"

section \<open>Inputs for the examples\<close>

text \<open>
  A small geometry to run the analysis on: a quadruple \<open>(x0, y0, x1, y1)\<close> is an axis-parallel
  rectangle, a point is a rectangle with no extent, and \<open>is_within\<close> is strict containment.
  Reference systems are named by strings and reprojection leaves a geometry as it is.
\<close>

abbreviation rect_geo :: "(string, int \<times> int \<times> int \<times> int) geo" where
  "rect_geo \<equiv>
     \<lparr>is_within = (\<lambda>p b. fst b < fst p \<and> fst (snd b) < fst (snd p) \<and>
                     fst (snd (snd p)) < fst (snd (snd b)) \<and> snd (snd (snd p)) < snd (snd (snd b))),
      reproject = (\<lambda>a b g. g),
      py_float = (\<lambda>t. None)\<rparr>"

abbreviation new_district :: "int \<times> int \<times> int \<times> int \<Rightarrow> string \<Rightarrow> real \<Rightarrow> (int \<times> int \<times> int \<times> int) district" where
  "new_district g n p \<equiv>
     \<lparr>geometry = g, DIST_NAME = n, TOTAL_POP = NumCell p, required_schools_col = None,
      current_schools_col = None, additional_schools_needed_col = None\<rparr>"

text \<open>Four facilities and three disjoint districts: one facility within \<open>A\<close>, two within \<open>B\<close>,
  one within no district; district \<open>E\<close> has neither people nor facilities.\<close>

abbreviation town_schools :: "(string, (int \<times> int \<times> int \<times> int) feature) gdf" where
  "town_schools \<equiv>
     \<lparr>crs = ''EPSG:4326'',
      rows = [\<lparr>geometry = (1, 1, 1, 1)\<rparr>, \<lparr>geometry = (4, 1, 4, 1)\<rparr>,
              \<lparr>geometry = (4, 1, 4, 1)\<rparr>, \<lparr>geometry = (9, 9, 9, 9)\<rparr>]\<rparr>"

abbreviation town_districts :: "(string, (int \<times> int \<times> int \<times> int) district) gdf" where
  "town_districts \<equiv>
     \<lparr>crs = ''EPSG:4326'',
      rows = [new_district (0, 0, 2, 2) ''A'' 2001, new_district (3, 0, 5, 2) ''B'' 1,
              new_district (6, 0, 8, 2) ''E'' 0]\<rparr>"



text \<open>The state before a run: the two layers on disk, and one data frame already in memory.\<close>

abbreviation on_disk ::
  "(string, (int \<times> int \<times> int \<times> int) feature) gdf \<Rightarrow> (string, (int \<times> int \<times> int \<times> int) district) gdf \<Rightarrow>
   (string, string, int \<times> int \<times> int \<times> int) world" where
  "on_disk schools cities \<equiv>
     \<lparr>sources = (\<lambda>l. if l = ''schools'' then Some (Facilities schools)
                      else if l = ''cities'' then Some (Districts cities) else None),
      heap = (\<lambda>a. if a = 0 then Some (Facilities \<lparr>crs = ''EPSG:3857'', rows = [\<lparr>geometry = (7, 7, 7, 7)\<rparr>]\<rparr>)
                   else None),
      next_addr = 1\<rparr>"

section \<open>Facts about the numbers\<close>

lemma sqrt2_lt_2: "sqrt 2 < 2"
  by (rule real_less_lsqrt) simp_all

lemma sqrt25: "sqrt 25 = 5"
  using real_sqrt_abs [of 5] by simp

lemma np_mean_Cons: "ls \<noteq> [] \<Longrightarrow> np_mean ls = Finite (sum_list ls / real (length ls))"
  by (cases ls) simp_all

lemma np_std_Cons:
  "ls \<noteq> [] \<Longrightarrow>
   np_std ls =
     Finite (sqrt (sum_list (map (\<lambda>v. (v - sum_list ls / real (length ls))\<^sup>2) ls) / real (length ls)))"
  by (cases ls) (simp_all add: Let_def)



section \<open>The proximity statistics\<close>



text \<open>
  scipy's \<open>ridge_points\<close> holds indices of input points, so every row of it passes the filter of
  \<open>ridge_lengths\<close>, whatever \<open>ridge_vertices\<close> says about the ridge: the filter removes nothing.
\<close>

lemma ridge_filter_keeps_all:
  assumes "\<forall>ridge\<in>set (ridge_points vor). ridge_ok (length coords) ridge"
  shows "length (ridge_lengths coords vor) = length (ridge_points vor)"
  using assms by (simp add: ridge_lengths_def)

text \<open>
  Claim C2. The claim: ridges that extend to infinity are left out, and mean, minimum and maximum
  are taken over the ridges between two finite input points only. The code's filter tests the
  indices in \<open>ridge_points\<close>, which are always indices of input points; the vertex at infinity
  is marked in \<open>ridge_vertices\<close>, which the code does not read. For the five facilities
  \<open>(0,0), (2,0), (0,2), (2,2), (1,1)\<close> the diagram has four bounded ridges (centre to corner,
  length \<open>sqrt 2\<close>) and four unbounded ones (corner to corner, length 2): the code keeps all
  eight, and reports the maximum 2 and the mean \<open>(4 * sqrt 2 + 8) / 8\<close>, where the bounded
  ridges alone give \<open>sqrt 2\<close> for both.
\<close>

theorem ridge_filter_keeps_unbounded_ridges:
  "length (filter ridge_bounded [[0, 3], [0, 1], [2, 3], [1, 2], [-1, 0], [-1, 3], [-1, 1], [-1, 2]]) = 4 \<and>
   ridge_lengths [(0, 0), (2, 0), (0, 2), (2, 2), (1, 1)]
     \<lparr>ridge_points = [(0, 4), (1, 4), (2, 4), (3, 4), (0, 1), (0, 2), (1, 3), (2, 3)],
      ridge_vertices = [[0, 3], [0, 1], [2, 3], [1, 2], [-1, 0], [-1, 3], [-1, 1], [-1, 2]]\<rparr>
     = [sqrt 2, sqrt 2, sqrt 2, sqrt 2, 2, 2, 2, 2] \<and>
   calculate_nearest_neighbor_distance
     (\<lambda>cs. Inr \<lparr>ridge_points = [(0, 4), (1, 4), (2, 4), (3, 4), (0, 1), (0, 2), (1, 3), (2, 3)],
      ridge_vertices = [[0, 3], [0, 1], [2, 3], [1, 2], [-1, 0], [-1, 3], [-1, 1], [-1, 2]]\<rparr>)
     [(0, 0), (2, 0), (0, 2), (2, 2), (1, 1)]
     = Inr \<lparr>mean_nearest_neighbor_distance = Finite ((4 * sqrt 2 + 8) / 8),
            min_nearest_neighbor_distance = sqrt 2,
            max_nearest_neighbor_distance = 2\<rparr>"
proof -
  have b: "length (filter ridge_bounded [[0, 3], [0, 1], [2, 3], [1, 2], [-1, 0], [-1, 3], [-1, 1], [-1, 2]]) = 4"
    by (simp add: ridge_bounded_def)
  have l: "ridge_lengths [(0, 0), (2, 0), (0, 2), (2, 2), (1, 1)]
     \<lparr>ridge_points = [(0, 4), (1, 4), (2, 4), (3, 4), (0, 1), (0, 2), (1, 3), (2, 3)],
      ridge_vertices = [[0, 3], [0, 1], [2, 3], [1, 2], [-1, 0], [-1, 3], [-1, 1], [-1, 2]]\<rparr>
     = [sqrt 2, sqrt 2, sqrt 2, sqrt 2, 2, 2, 2, 2]"
    by (simp add: ridge_lengths_def ridge_ok_def norm2_def vsub_def)
  have s: "nearest_neighbor_summary [sqrt 2, sqrt 2, sqrt 2, sqrt 2, 2, 2, 2, 2]
     = Inr \<lparr>mean_nearest_neighbor_distance = Finite ((4 * sqrt 2 + 8) / 8),
            min_nearest_neighbor_distance = sqrt 2,
            max_nearest_neighbor_distance = 2\<rparr>"
    using sqrt2_lt_2 by (simp add: nearest_neighbor_summary_def min_def max_def)
  show ?thesis
    unfolding calculate_nearest_neighbor_distance_def using b l s by simp
qed




section \<open>The coverage\<close>





text \<open>
  The divisor of the percentage is the product of the four bounds, not the area of the
  rectangle they span: for facilities at \<open>(1, 1)\<close> and \<open>(3, 2)\<close> the rectangle has area 2 and the
  code divides by \<open>1 * 1 * 3 * 2 = 6\<close>.
\<close>

lemma coverage_divides_by_bounds_product:
  "coverage_percentage (calculate_coverage (\<lambda>ps d. 400) [(1, 1), (3, 2)] 10) = Finite (400 / 6 * 100)"
  by (simp add: calculate_coverage_def Let_def np_div_def)

section \<open>The dispersion\<close>

lemma dispersion_nonempty:
  assumes "gs \<noteq> []"
  shows "calculate_spatial_dispersion gs =
      (let n = real (length gs);
           center = (sum_list (map fst gs) / n, sum_list (map snd gs) / n);
           ds = map (\<lambda>p. distance p center) gs;
           m = sum_list ds / n
       in \<lparr>mean_distance_from_center = Finite m,
           std_distance_from_center = Finite (sqrt (sum_list (map (\<lambda>d. (d - m)\<^sup>2) ds) / n))\<rparr>)"
proof -
  from assms obtain g gs' where gs: "gs = g # gs'" by (cases gs) auto
  have c: "centroid_of_centroids (map centroid gs) =
        Some (sum_list (map fst gs) / real (length gs), sum_list (map snd gs) / real (length gs))"
    by (simp add: gs centroid_def [abs_def])
  have ne: "map (\<lambda>c. distance c (sum_list (map fst gs) / real (length gs), sum_list (map snd gs) / real (length gs))) gs \<noteq> []"
    using assms by simp
  show ?thesis
    unfolding calculate_spatial_dispersion_def distances_from_center_def c Let_def
    using np_mean_Cons [OF ne] np_std_Cons [OF ne]
    by (simp add: centroid_def [abs_def])
qed

lemma dispersion_single: "calculate_spatial_dispersion [p] =
     \<lparr>mean_distance_from_center = Finite 0, std_distance_from_center = Finite 0\<rparr>"
  by (simp add: calculate_spatial_dispersion_def distances_from_center_def centroid_def distance_def Let_def)

lemma dispersion_example: "calculate_spatial_dispersion [(0, 0), (10, 0)] =
     \<lparr>mean_distance_from_center = Finite 5, std_distance_from_center = Finite 0\<rparr>"
  by (simp add: calculate_spatial_dispersion_def distances_from_center_def centroid_def distance_def Let_def sqrt25)

text \<open>
  Claim C9, as the code has it. For a non-empty set of facilities the centre is the mean
  coordinate of the centroids, and the code reports the mean and the population standard
  deviation of the distances from the centroids to the centre. With one facility both are 0.
  For facilities at \<open>(0,0)\<close> and \<open>(10,0)\<close> the centre is \<open>(5,0)\<close>, both distances are 5, so the mean
  distance is 5 and the standard deviation is 0.
\<close>

theorem dispersion_mean_and_std:
  assumes "gs \<noteq> []"
  shows "calculate_spatial_dispersion gs =
      (let n = real (length gs);
           center = (sum_list (map fst gs) / n, sum_list (map snd gs) / n);
           ds = map (\<lambda>p. distance p center) gs;
           m = sum_list ds / n
       in \<lparr>mean_distance_from_center = Finite m,
           std_distance_from_center = Finite (sqrt (sum_list (map (\<lambda>d. (d - m)\<^sup>2) ds) / n))\<rparr>) \<and>
     std_distance_from_center (calculate_spatial_dispersion [p]) = Finite 0 \<and>
     centroid_of_centroids (map centroid [(0, 0), (10, 0)]) = Some (5, 0) \<and>
     calculate_spatial_dispersion [(0, 0), (10, 0)] =
       \<lparr>mean_distance_from_center = Finite 5, std_distance_from_center = Finite 0\<rparr>"
proof -
  have c: "centroid_of_centroids (map centroid [(0, 0), (10, 0)]) = Some (5, 0)"
    by (simp add: centroid_def)
  from dispersion_nonempty [OF assms] dispersion_single [of p] dispersion_example c
  show ?thesis by simp
qed

theorem dispersion_mean_and_std_witness:
  "[(0, 0), (10, 0)] \<noteq> ([] :: point list) \<and>
   mean_distance_from_center (calculate_spatial_dispersion [(0, 0), (10, 0)]) = Finite 5 \<and>
   std_distance_from_center (calculate_spatial_dispersion [(0, 0), (10, 0)]) = Finite 0 \<and>
   std_distance_from_center (calculate_spatial_dispersion [(3, 4)]) = Finite 0"
proof -
  have ne: "[(0, 0), (10, 0)] \<noteq> ([] :: point list)" by simp
  note t = dispersion_mean_and_std [OF ne, of "(3, 4)", THEN conjunct2]
  from t have a: "std_distance_from_center (calculate_spatial_dispersion [(3, 4)]) = Finite 0"
    by (rule conjunct1)
  from t have b: "calculate_spatial_dispersion [(0, 0), (10, 0)] =
       \<lparr>mean_distance_from_center = Finite 5, std_distance_from_center = Finite 0\<rparr>"
    by (rule conjunct2 [THEN conjunct2])
  show ?thesis using ne a by (simp add: b)
qed

text \<open>
  Claim C9 as stated fails in its example: the standard deviation of the two distances 5 and 5
  is 0, not 5.
\<close>

theorem dispersion_example_counterexample:
  "std_distance_from_center (calculate_spatial_dispersion [(0, 0), (10, 0)]) \<noteq> Finite 5"
  by (simp add: dispersion_example)

section \<open>The analysis of edu\_access\_mapper.py\<close>

subsection \<open>Columns and dictionaries\<close>

lemma traverse_all2:
  "traverse f xs = Inr ys \<Longrightarrow> list_all2 (\<lambda>x y. f x = Inr y) xs ys"
  by (induction xs arbitrary: ys) (auto split: sum.splits)






lemma names_set_TOTAL_POP:
  "length vs = length ds \<Longrightarrow> map DIST_NAME (set_TOTAL_POP vs ds) = map DIST_NAME ds"
  by (induction ds vs rule: list_induct2') (simp_all add: set_TOTAL_POP_def)

lemma pops_set_TOTAL_POP:
  "length vs = length ds \<Longrightarrow> map TOTAL_POP (set_TOTAL_POP vs ds) = vs"
  by (induction ds vs rule: list_induct2') (simp_all add: set_TOTAL_POP_def)

lemma names_set_required_schools:
  "length vs = length ds \<Longrightarrow> map DIST_NAME (set_required_schools vs ds) = map DIST_NAME ds"
  by (induction ds vs rule: list_induct2') (simp_all add: set_required_schools_def)

lemma names_set_current_schools:
  "length vs = length ds \<Longrightarrow> map DIST_NAME (set_current_schools vs ds) = map DIST_NAME ds"
  by (induction ds vs rule: list_induct2') (simp_all add: set_current_schools_def)

lemma names_set_additional_schools_needed:
  "length vs = length ds \<Longrightarrow> map DIST_NAME (set_additional_schools_needed vs ds) = map DIST_NAME ds"
  by (induction ds vs rule: list_induct2') (simp_all add: set_additional_schools_needed_def)

lemma length_set_cols:
  "length (set_TOTAL_POP vs ds) = min (length ds) (length vs)"
  "length (set_required_schools ws ds) = min (length ds) (length ws)"
  "length (set_current_schools ws ds) = min (length ds) (length ws)"
  "length (set_additional_schools_needed ws ds) = min (length ds) (length ws)"
  by (simp_all add: set_TOTAL_POP_def set_required_schools_def set_current_schools_def
      set_additional_schools_needed_def)

lemma map_over_names:
  "map DIST_NAME xs = map DIST_NAME ys \<Longrightarrow>
   map (\<lambda>d. f (DIST_NAME d)) xs = map (\<lambda>d. f (DIST_NAME d)) ys"
proof -
  assume a: "map DIST_NAME xs = map DIST_NAME ys"
  have "map (\<lambda>d. f (DIST_NAME d)) xs = map f (map DIST_NAME xs)" by (simp add: comp_def)
  also have "\<dots> = map f (map DIST_NAME ys)" by (simp only: a)
  also have "\<dots> = map (\<lambda>d. f (DIST_NAME d)) ys" by (simp add: comp_def)
  finally show ?thesis .
qed

lemma capacity_and_result_Inr:
  assumes p: "traverse (astype_float (py_float G)) (map TOTAL_POP (rows C)) = Inr pops"
    and q: "traverse required_of pops = Inr req"
  shows "fst (capacity_and_result G S a C pc w) =
     Inr \<lparr>total_schools = length (rows S),
          schools_per_city = pc,
          required_schools = to_dict (zip (map DIST_NAME (rows C)) req),
          additional_schools_needed =
            to_dict (zip (map DIST_NAME (rows C))
              (map (\<lambda>x. max x 0)
                 (map (\<lambda>(r, c). r - c) (zip req (map (\<lambda>d. current_of pc (DIST_NAME d)) (rows C))))))\<rparr>"
proof -
  have lp: "length pops = length (rows C)"
    using list_all2_lengthD [OF traverse_all2 [OF p]] by simp
  have lq: "length req = length (rows C)"
    using list_all2_lengthD [OF traverse_all2 [OF q]] lp by simp
  have n2: "map DIST_NAME (set_required_schools req (set_TOTAL_POP pops (rows C))) = map DIST_NAME (rows C)"
    by (simp add: lp lq names_set_TOTAL_POP names_set_required_schools length_set_cols)
  note cur = map_over_names [OF n2, of "current_of pc"]
  show ?thesis
    unfolding capacity_and_result_def
    by (simp add: p q lp lq Let_def pops_set_TOTAL_POP names_set_TOTAL_POP
        names_set_required_schools names_set_current_schools
        names_set_additional_schools_needed length_set_cols cur)
qed






subsection \<open>What the analysis returns and what it writes\<close>

lemma names_to_crs: "map DIST_NAME (rows (to_crs G t C)) = map DIST_NAME (rows C)"
  by (simp add: to_crs_def comp_def)

lemma pops_to_crs: "map TOTAL_POP (rows (to_crs G t C)) = map TOTAL_POP (rows C)"
  by (simp add: to_crs_def comp_def)

lemma length_to_crs: "length (rows (to_crs G t C)) = length (rows C)"
  by (simp add: to_crs_def)

lemma analyze_reduces:
  assumes S: "sources w sl = Some (Facilities S)" and C: "sources w cl = Some (Districts C)"
  shows "\<exists>a w3. analyze_school_distribution G w sl cl =
           capacity_and_result G S a (if crs S \<noteq> crs C then to_crs G (crs S) C else C)
             (groupby_size (joined_names (sjoin_left_within G (rows S)
                (rows (if crs S \<noteq> crs C then to_crs G (crs S) C else C))))) w3"
  unfolding analyze_school_distribution_def layer_to_geopandas_def alloc_def
  by (cases "crs S = crs C") (auto simp: S C Let_def)

lemma capacity_frame:
  "sources (snd (capacity_and_result G S a C pc w)) = sources w \<and>
   next_addr (snd (capacity_and_result G S a C pc w)) = next_addr w \<and>
   (\<forall>b. b \<noteq> a \<longrightarrow> heap (snd (capacity_and_result G S a C pc w)) b = heap w b)"
  unfolding capacity_and_result_def
  by (simp add: store_def Let_def split: sum.splits)

lemma fst_capacity_indep:
  "fst (capacity_and_result G S a C pc w) = fst (capacity_and_result G S a' C pc w')"
  unfolding capacity_and_result_def
  by (simp add: Let_def split: sum.splits)

lemma analyze_frame:
  "sources (snd (analyze_school_distribution G w sl cl)) = sources w \<and>
   next_addr w \<le> next_addr (snd (analyze_school_distribution G w sl cl)) \<and>
   (\<forall>b. b < next_addr w \<longrightarrow> heap (snd (analyze_school_distribution G w sl cl)) b = heap w b)"
  unfolding analyze_school_distribution_def layer_to_geopandas_def alloc_def
  by (auto simp: Let_def capacity_frame split: option.splits layer_data.splits)

lemma fst_analyze_indep:
  "sources w' = sources w \<Longrightarrow>
   fst (analyze_school_distribution G w' sl cl) = fst (analyze_school_distribution G w sl cl)"
  unfolding analyze_school_distribution_def layer_to_geopandas_def alloc_def
  by (auto simp: Let_def fst_capacity_indep split: option.splits layer_data.splits)

lemma analyze_Inr:
  assumes S: "sources w sl = Some (Facilities S)" and C: "sources w cl = Some (Districts C)"
    and p: "traverse (astype_float (py_float G)) (map TOTAL_POP (rows C)) = Inr pops"
    and q: "traverse required_of pops = Inr req"
  shows "fst (analyze_school_distribution G w sl cl) =
     Inr \<lparr>total_schools = length (rows S),
          schools_per_city =
            groupby_size (joined_names (sjoin_left_within G (rows S)
                (rows (if crs S \<noteq> crs C then to_crs G (crs S) C else C)))),
          required_schools = to_dict (zip (map DIST_NAME (rows C)) req),
          additional_schools_needed =
            to_dict (zip (map DIST_NAME (rows C))
              (map (\<lambda>x. max x 0)
                 (map (\<lambda>(r, c). r - c) (zip req (map (\<lambda>d. current_of
                    (groupby_size (joined_names (sjoin_left_within G (rows S)
                      (rows (if crs S \<noteq> crs C then to_crs G (crs S) C else C))))) (DIST_NAME d)) (rows C))))))\<rparr>"
proof -
  let ?C = "if crs S \<noteq> crs C then to_crs G (crs S) C else C"
  let ?pc = "groupby_size (joined_names (sjoin_left_within G (rows S) (rows ?C)))"
  from analyze_reduces [OF S C, of G] obtain a w3 where
    r: "analyze_school_distribution G w sl cl = capacity_and_result G S a ?C ?pc w3"
    by blast
  have p': "traverse (astype_float (py_float G)) (map TOTAL_POP (rows ?C)) = Inr pops"
    using p by (simp add: pops_to_crs)
  have n: "map DIST_NAME (rows ?C) = map DIST_NAME (rows C)"
    by (simp add: names_to_crs)
  show ?thesis
    unfolding r capacity_and_result_Inr [OF p' q] n map_over_names [OF n, of "current_of ?pc"]
    by (rule refl)
qed



subsection \<open>The spatial join and the grouping\<close>
























lemma layer_to_crs_Districts:
  "layer_to_crs G t x = Districts c \<Longrightarrow> \<exists>C. x = Districts C"
  by (cases x) simp_all

lemma analyze_Inr_sources:
  assumes "fst (analyze_school_distribution G w sl cl) = Inr r"
  shows "\<exists>S C. sources w sl = Some (Facilities S) \<and> sources w cl = Some (Districts C)"
  using assms unfolding analyze_school_distribution_def layer_to_geopandas_def alloc_def
  by (auto simp: Let_def split: option.splits layer_data.splits if_splits
      dest: layer_to_crs_Districts)

lemma analyze_reduces_addr:
  assumes S: "sources w sl = Some (Facilities S)" and C: "sources w cl = Some (Districts C)"
  shows "\<exists>a w3. analyze_school_distribution G w sl cl =
           capacity_and_result G S a (if crs S \<noteq> crs C then to_crs G (crs S) C else C)
             (groupby_size (joined_names (sjoin_left_within G (rows S)
                (rows (if crs S \<noteq> crs C then to_crs G (crs S) C else C))))) w3 \<and> next_addr w \<le> a"
proof (cases "crs S = crs C")
  case True
  show ?thesis
    unfolding analyze_school_distribution_def layer_to_geopandas_def alloc_def
    apply (simp add: S C Let_def True)
    apply (intro exI conjI)
     apply (rule refl)
    apply simp
    done
next
  case False
  show ?thesis
    unfolding analyze_school_distribution_def layer_to_geopandas_def alloc_def
    apply (simp add: S C Let_def False)
    apply (intro exI conjI)
     apply (rule refl)
    apply simp
    done
qed

lemma set_additional_Some:
  "d \<in> set (set_additional_schools_needed vs ds) \<Longrightarrow> \<exists>v. additional_schools_needed_col d = Some v"
  by (auto simp: set_additional_schools_needed_def)

lemma capacity_heap:
  assumes "fst (capacity_and_result G S a C pc w) = Inr r"
  shows "\<exists>c. heap (snd (capacity_and_result G S a C pc w)) a = Some (Districts c) \<and>
             (\<forall>d\<in>set (rows c). \<exists>v. additional_schools_needed_col d = Some v)"
  using assms unfolding capacity_and_result_def
  by (auto simp: Let_def store_def split: sum.splits dest!: set_additional_Some)

lemma analyze_schools_frame:
  "sources w sl = Some ob \<Longrightarrow>
   heap (snd (analyze_school_distribution G w sl cl)) (next_addr w) = Some ob"
  unfolding analyze_school_distribution_def layer_to_geopandas_def alloc_def
  by (auto simp: Let_def capacity_frame split: option.splits layer_data.splits)

subsection \<open>The examples, evaluated\<close>

lemma ceiling_one_person: "\<lceil>(1::real) / 2000\<rceil> = 1"
  by (rule ceiling_unique) simp_all

lemma example_analysis:
  "fst (analyze_school_distribution rect_geo (on_disk town_schools town_districts) ''schools'' ''cities'') =
   Inr \<lparr>total_schools = 4,
        schools_per_city = groupby_size [Some ''A'', Some ''B'', Some ''B'', None],
        required_schools = to_dict [(''A'', 2), (''B'', 1), (''E'', 0)],
        additional_schools_needed = to_dict [(''A'', 1), (''B'', 0), (''E'', 0)]\<rparr>"
proof -
  have h1: "sources (on_disk town_schools town_districts) ''schools'' = Some (Facilities town_schools)"
    by simp
  have h2: "sources (on_disk town_schools town_districts) ''cities'' = Some (Districts town_districts)"
    by simp
  have h3: "\<forall>d\<in>set (rows town_districts). \<exists>p. astype_float (py_float rect_geo) (TOTAL_POP d) = Inr (NumCell p)"
    by simp
  have p: "traverse (astype_float (py_float rect_geo)) (map TOTAL_POP (rows town_districts)) =
      Inr [NumCell 2001, NumCell 1, NumCell 0]"
    by simp
  have q: "traverse required_of [NumCell 2001, NumCell 1, NumCell 0] = Inr [2, 1, 0]"
    by (simp add: max_students_per_school_def ceiling_one_person)
  show ?thesis
    unfolding analyze_Inr [OF h1 h2 p q]
    by (simp add: sjoin_left_within_def joined_names_def current_of_def groupby_size_def)
qed


subsection \<open>The capacity calculation\<close>







subsection \<open>The containment counts\<close>







subsection \<open>The frame of the analysis\<close>

text \<open>
  Claim C10. Whatever the analysis returns, the data sources of the layers are what they were,
  every data frame that was in memory before the call is what it was, and the facility data
  frame the loader built is never written. When the analysis returns a result, the data frame
  that carries the derived columns is one that the call itself built. A second run on the
  state the first one left returns what the first returned.
\<close>

theorem analysis_leaves_sources_unchanged:
  "sources (snd (analyze_school_distribution G w school_layer cities_layer)) = sources w \<and>
   (\<forall>a. a < next_addr w \<longrightarrow>
      heap (snd (analyze_school_distribution G w school_layer cities_layer)) a = heap w a) \<and>
   (\<forall>ob. sources w school_layer = Some ob \<longrightarrow>
      heap (snd (analyze_school_distribution G w school_layer cities_layer)) (next_addr w) = Some ob) \<and>
   (\<forall>r. fst (analyze_school_distribution G w school_layer cities_layer) = Inr r \<longrightarrow>
      (\<exists>a c. next_addr w \<le> a \<and>
         heap (snd (analyze_school_distribution G w school_layer cities_layer)) a = Some (Districts c) \<and>
         (\<forall>d\<in>set (rows c). \<exists>v. additional_schools_needed_col d = Some v))) \<and>
   fst (analyze_school_distribution G
          (snd (analyze_school_distribution G w school_layer cities_layer)) school_layer cities_layer) =
     fst (analyze_school_distribution G w school_layer cities_layer)"
proof -
  note f = analyze_frame [of G w school_layer cities_layer]
  have 2: "\<forall>ob. sources w school_layer = Some ob \<longrightarrow>
      heap (snd (analyze_school_distribution G w school_layer cities_layer)) (next_addr w) = Some ob"
    by (intro allI impI) (rule analyze_schools_frame)
  have 3: "\<forall>r. fst (analyze_school_distribution G w school_layer cities_layer) = Inr r \<longrightarrow>
      (\<exists>a c. next_addr w \<le> a \<and>
         heap (snd (analyze_school_distribution G w school_layer cities_layer)) a = Some (Districts c) \<and>
         (\<forall>d\<in>set (rows c). \<exists>v. additional_schools_needed_col d = Some v))"
  proof (intro allI impI)
    fix r
    assume r: "fst (analyze_school_distribution G w school_layer cities_layer) = Inr r"
    from analyze_Inr_sources [OF r] obtain S C where
      S: "sources w school_layer = Some (Facilities S)" and C: "sources w cities_layer = Some (Districts C)"
      by blast
    from analyze_reduces_addr [OF S C, of G] obtain a w3 where
      e: "analyze_school_distribution G w school_layer cities_layer =
           capacity_and_result G S a (if crs S \<noteq> crs C then to_crs G (crs S) C else C)
             (groupby_size (joined_names (sjoin_left_within G (rows S)
                (rows (if crs S \<noteq> crs C then to_crs G (crs S) C else C))))) w3"
      and a: "next_addr w \<le> a"
      by blast
    from capacity_heap [OF r [unfolded e]] a
    show "\<exists>a c. next_addr w \<le> a \<and>
         heap (snd (analyze_school_distribution G w school_layer cities_layer)) a = Some (Districts c) \<and>
         (\<forall>d\<in>set (rows c). \<exists>v. additional_schools_needed_col d = Some v)"
      unfolding e by blast
  qed
  have 4: "fst (analyze_school_distribution G
          (snd (analyze_school_distribution G w school_layer cities_layer)) school_layer cities_layer) =
     fst (analyze_school_distribution G w school_layer cities_layer)"
    by (rule fst_analyze_indep) (simp add: f)
  from f 2 3 4 show ?thesis by blast
qed

text \<open>A state with one data frame in memory, at address 0, before the run.\<close>

theorem analysis_leaves_sources_unchanged_witness:
  "sources (snd (analyze_school_distribution rect_geo (on_disk town_schools town_districts) ''schools'' ''cities'')) = sources (on_disk town_schools town_districts) \<and>
   heap (snd (analyze_school_distribution rect_geo (on_disk town_schools town_districts) ''schools'' ''cities'')) 0 = heap (on_disk town_schools town_districts) 0 \<and>
   heap (snd (analyze_school_distribution rect_geo (on_disk town_schools town_districts) ''schools'' ''cities'')) 1 = Some (Facilities town_schools) \<and>
   (\<exists>a c. 1 \<le> a \<and> heap (snd (analyze_school_distribution rect_geo (on_disk town_schools town_districts) ''schools'' ''cities'')) a = Some (Districts c) \<and>
      (\<forall>d\<in>set (rows c). \<exists>v. additional_schools_needed_col d = Some v)) \<and>
   fst (analyze_school_distribution rect_geo (snd (analyze_school_distribution rect_geo (on_disk town_schools town_districts) ''schools'' ''cities'')) ''schools'' ''cities'') =
   fst (analyze_school_distribution rect_geo (on_disk town_schools town_districts) ''schools'' ''cities'')"
proof -
  note t = analysis_leaves_sources_unchanged [of rect_geo "(on_disk town_schools town_districts)" "''schools''" "''cities''"]
  from t have 1: "sources (snd (analyze_school_distribution rect_geo (on_disk town_schools town_districts) ''schools'' ''cities'')) = sources (on_disk town_schools town_districts)"
    by (rule conjunct1)
  from t have 2: "heap (snd (analyze_school_distribution rect_geo (on_disk town_schools town_districts) ''schools'' ''cities'')) 0 = heap (on_disk town_schools town_districts) 0"
    by simp
  from t have 3: "heap (snd (analyze_school_distribution rect_geo (on_disk town_schools town_districts) ''schools'' ''cities'')) 1 = Some (Facilities town_schools)"
    by simp
  from t example_analysis
  have 4: "\<exists>a c. 1 \<le> a \<and> heap (snd (analyze_school_distribution rect_geo (on_disk town_schools town_districts) ''schools'' ''cities'')) a = Some (Districts c) \<and>
      (\<forall>d\<in>set (rows c). \<exists>v. additional_schools_needed_col d = Some v)"
    by simp
  from t have 5: "fst (analyze_school_distribution rect_geo (snd (analyze_school_distribution rect_geo (on_disk town_schools town_districts) ''schools'' ''cities'')) ''schools'' ''cities'') =
      fst (analyze_school_distribution rect_geo (on_disk town_schools town_districts) ''schools'' ''cities'')"
    by simp
  from 1 2 3 4 5 show ?thesis by blast
qed

end
